theory Spec2Isabelle
  imports Complex_Main "HOL-Library.Sublist"
begin

section \<open>JavaScript values and errors\<close>

text \<open>
  A thrown JavaScript error is its \<open>name\<close> and its \<open>message\<close>. The plugin's own
  errors are all made by \<^verbatim>\<open>new Error(msg)\<close>, whose name is \<open>Error\<close>; the platform's
  are DOM exceptions such as \<open>QuotaExceededError\<close>.
\<close>

datatype js_error = JsError (err_name: string) (err_message: string)

definition new_Error :: "string \<Rightarrow> js_error" where
  "new_Error msg = JsError ''Error'' msg"

text \<open>
  Reading a property of \<^verbatim>\<open>undefined\<close> or of \<^verbatim>\<open>null\<close>. The name is the language's, the
  wording of the message the engine's.
\<close>

definition undefined_access :: js_error where
  "undefined_access = JsError ''TypeError'' ''Cannot read properties of undefined''"

definition null_access :: js_error where
  "null_access = JsError ''TypeError'' ''Cannot read properties of null''"

text \<open>\<^verbatim>\<open>TimeRanges.end(0)\<close> on an empty \<^verbatim>\<open>TimeRanges\<close>.\<close>

definition index_size_error :: js_error where
  "index_size_error = JsError ''IndexSizeError'' ''index out of range''"

section \<open>The playback surface\<close>

text \<open>
  The \<^verbatim>\<open>audio\<close> element, as far as \<^verbatim>\<open>MediaSourcePlayer\<close> touches it: the \<^verbatim>\<open>src\<close>
  attribute, whether \<^verbatim>\<open>MediaSourcePlayer.playEventHandler\<close> is registered for
  \<^verbatim>\<open>play\<close>, the paused flag, \<^verbatim>\<open>currentTime\<close> and \<^verbatim>\<open>seekable\<close>. Elements are
  shared objects, so they live in a store indexed by reference.
\<close>

record element =
  src :: "string option"
  playListener :: bool
  paused :: bool
  currentTime :: real
  seekable :: "(real \<times> real) list"

type_synonym el_ref = nat
type_synonym dom = "el_ref \<Rightarrow> element"

text \<open>\<^verbatim>\<open>static playEventHandler(event)\<close>, on the event's target.\<close>

definition playEventHandler :: "element \<Rightarrow> element" where
  "playEventHandler audioEl =
     (case seekable audioEl of
        [] \<Rightarrow> audioEl
      | r # _ \<Rightarrow> audioEl\<lparr>currentTime := snd r\<rparr>)"

section \<open>The platform streaming-buffer primitive\<close>

text \<open>
  \<^verbatim>\<open>MediaSource\<close> and \<^verbatim>\<open>SourceBuffer\<close> belong to the browser, not to this repository.
  Their behaviour is a parameter: a primitive with states \<open>'p\<close> that takes segments
  \<open>'a\<close>. A call that throws may still have changed the primitive, so every call
  returns the error (if any) together with the next state.
\<close>

record ('a, 'p) platform =
  createObjectURL :: string
  addSourceBuffer :: "string \<Rightarrow> js_error + 'p"
  sb_updating :: "'p \<Rightarrow> bool"
  sb_appendBuffer :: "'a \<Rightarrow> 'p \<Rightarrow> js_error option \<times> 'p"
  sb_buffered :: "'p \<Rightarrow> (real \<times> real) list"
  sb_remove :: "real \<Rightarrow> real \<Rightarrow> 'p \<Rightarrow> js_error option \<times> 'p"

datatype ready_state = Closed | Open | Ended

fun ready_state_str :: "ready_state \<Rightarrow> string" where
  "ready_state_str Closed = ''closed''"
| "ready_state_str Open = ''open''"
| "ready_state_str Ended = ''ended''"

text \<open>
  What the primitive was asked to do, in call order, with the error each call threw
  (\<open>None\<close> when it returned normally). This is the record a fake primitive keeps.
\<close>

datatype 'a call =
    AppendBuffer 'a "js_error option"
  | Remove real real "js_error option"

fun appended :: "'a call list \<Rightarrow> 'a list" where
  "appended [] = []"
| "appended (AppendBuffer d None # cs) = d # appended cs"
| "appended (AppendBuffer d (Some e) # cs) = appended cs"
| "appended (Remove a b r # cs) = appended cs"

fun removals :: "'a call list \<Rightarrow> (real \<times> real) list" where
  "removals [] = []"
| "removals (Remove a b r # cs) = (a, b) # removals cs"
| "removals (AppendBuffer d r # cs) = removals cs"

section \<open>MediaSourcePlayer\<close>

text \<open>
  The fields of the class: \<^verbatim>\<open>mediaSource\<close> (its \<^verbatim>\<open>readyState\<close>, and whether the
  constructor's once-only \<^verbatim>\<open>sourceopen\<close> listener is still armed), \<^verbatim>\<open>sourceBuffer\<close>
  (\<^verbatim>\<open>undefined\<close> until that listener has run), \<^verbatim>\<open>#directFeed\<close>, \<^verbatim>\<open>#dataQueue\<close>,
  \<^verbatim>\<open>#attachedEl\<close>, the \<^verbatim>\<open>mime\<close> argument the constructor's listener closes over, and the calls
  made to the primitive so far.
\<close>

record ('a, 'p) media_source_player =
  ctor_mime :: string
  readyState :: ready_state
  sourceopenArmed :: bool
  sourceBuffer :: "'p option"
  directFeed :: bool
  dataQueue :: "'a list"
  attachedEl :: "el_ref option"
  calls :: "'a call list"

definition BUFFER_MIN_REMAIN :: real where
  "BUFFER_MIN_REMAIN = 30"

text \<open>\<^verbatim>\<open>constructor(mime)\<close>: a new \<^verbatim>\<open>MediaSource\<close> is closed.\<close>

definition new_MediaSourcePlayer :: "string \<Rightarrow> ('a, 'p) media_source_player" where
  "new_MediaSourcePlayer m =
     \<lparr>ctor_mime = m, readyState = Closed, sourceopenArmed = True, sourceBuffer = None,
      directFeed = True, dataQueue = [], attachedEl = None, calls = []\<rparr>"

text \<open>
  The \<^verbatim>\<open>sourceopen\<close> event. The platform has set \<^verbatim>\<open>readyState\<close> to open; the
  constructor's listener runs once, creates the source buffer and binds the
  \<^verbatim>\<open>updateend\<close> listener to it. When \<^verbatim>\<open>addSourceBuffer\<close> throws, the listener ends
  there and \<^verbatim>\<open>sourceBuffer\<close> stays undefined.
\<close>

definition on_sourceopen ::
  "('a, 'p) platform \<Rightarrow> ('a, 'p) media_source_player \<Rightarrow> js_error option \<times> ('a, 'p) media_source_player"
where
  "on_sourceopen P s =
     (let s1 = s\<lparr>readyState := Open\<rparr> in
      if \<not> sourceopenArmed s then (None, s1)
      else (case addSourceBuffer P (ctor_mime s) of
              Inl err \<Rightarrow> (Some err, s1\<lparr>sourceopenArmed := False\<rparr>)
            | Inr p \<Rightarrow> (None, s1\<lparr>sourceopenArmed := False, sourceBuffer := Some p\<rparr>)))"

text \<open>
  \<^verbatim>\<open>async attach(element)\<close>, up to the promise it returns: that promise resolves at
  the next \<^verbatim>\<open>sourceopen\<close>.
\<close>

definition attach ::
  "('a, 'p) platform \<Rightarrow> el_ref \<Rightarrow> dom \<Rightarrow> ('a, 'p) media_source_player
     \<Rightarrow> js_error option \<times> dom \<times> ('a, 'p) media_source_player"
where
  "attach P el D s =
     (if attachedEl s \<noteq> None then (Some (new_Error ''Already attached to an element''), D, s)
      else (None,
            D(el := (D el)\<lparr>src := Some (createObjectURL P), playListener := True\<rparr>),
            s\<lparr>attachedEl := Some el\<rparr>))"

text \<open>\<^verbatim>\<open>async detach()\<close>, run to its end.\<close>

definition detach ::
  "dom \<Rightarrow> ('a, 'p) media_source_player \<Rightarrow> js_error option \<times> dom \<times> ('a, 'p) media_source_player"
where
  "detach D s =
     (case attachedEl s of
        None \<Rightarrow> (None, D, s)
      | Some el \<Rightarrow>
          (None,
           D(el := (D el)\<lparr>playListener := False, paused := True, src := None, currentTime := 0\<rparr>),
           s))"

text \<open>\<^verbatim>\<open>feed(data)\<close>.\<close>

definition feed ::
  "('a, 'p) platform \<Rightarrow> 'a \<Rightarrow> ('a, 'p) media_source_player
     \<Rightarrow> js_error option \<times> ('a, 'p) media_source_player"
where
  "feed P data s =
     (if attachedEl s = None then (Some (new_Error ''Not attached to any elements''), s)
      else if readyState s \<noteq> Open then
        (Some (new_Error (''Bad MediaSource state: '' @ ready_state_str (readyState s))), s)
      else if directFeed s then
        (case sourceBuffer s of
           None \<Rightarrow> (Some undefined_access, s)
         | Some p \<Rightarrow>
             (case sb_appendBuffer P data p of
                (Some err, p1) \<Rightarrow>
                  (Some err, s\<lparr>sourceBuffer := Some p1,
                               calls := calls s @ [AppendBuffer data (Some err)]\<rparr>)
              | (None, p1) \<Rightarrow>
                  (None, s\<lparr>sourceBuffer := Some p1,
                           calls := calls s @ [AppendBuffer data None],
                           directFeed := (if sb_updating P p1 then False else directFeed s)\<rparr>)))
      else (None, s\<lparr>dataQueue := dataQueue s @ [data]\<rparr>))"

text \<open>
  The end of the evicted range: \<^verbatim>\<open>(removeEnd <= 0) ? 1 : removeEnd\<close> with
  \<^verbatim>\<open>removeEnd = bufferEnd - MediaSourcePlayer.BUFFER_MIN_REMAIN\<close>.
\<close>

definition evict_end :: "real \<Rightarrow> real" where
  "evict_end bufferEnd =
     (let removeEnd = bufferEnd - BUFFER_MIN_REMAIN in
      if removeEnd \<le> 0 then 1 else removeEnd)"

text \<open>
  The \<^verbatim>\<open>catch\<close> branch of the \<^verbatim>\<open>updateend\<close> listener for a \<open>QuotaExceededError\<close>:
  \<open>p\<close> is the primitive after the append that threw, \<open>cs\<close> the calls so far.
\<close>

definition quota_recovery ::
  "('a, 'p) platform \<Rightarrow> 'a \<Rightarrow> 'p \<Rightarrow> 'a call list \<Rightarrow> ('a, 'p) media_source_player
     \<Rightarrow> js_error option \<times> ('a, 'p) media_source_player"
where
  "quota_recovery P data p cs s =
     (case sb_buffered P p of
        [] \<Rightarrow> (Some index_size_error, s\<lparr>sourceBuffer := Some p, calls := cs\<rparr>)
      | r # _ \<Rightarrow>
          (let e = evict_end (snd r) in
           case sb_remove P 0 e p of
             (Some err, p2) \<Rightarrow>
               (Some err, s\<lparr>sourceBuffer := Some p2, calls := cs @ [Remove 0 e (Some err)]\<rparr>)
           | (None, p2) \<Rightarrow>
               (if \<not> sb_updating P p2 then
                  (case sb_appendBuffer P data p2 of
                     (Some err, p3) \<Rightarrow>
                       (Some err,
                        s\<lparr>sourceBuffer := Some p3,
                          calls := cs @ [Remove 0 e None, AppendBuffer data (Some err)]\<rparr>)
                   | (None, p3) \<Rightarrow>
                       (None,
                        s\<lparr>sourceBuffer := Some p3,
                          calls := cs @ [Remove 0 e None, AppendBuffer data None],
                          dataQueue := tl (dataQueue s)\<rparr>))
                else (None, s\<lparr>sourceBuffer := Some p2, calls := cs @ [Remove 0 e None]\<rparr>))))"

text \<open>
  The \<^verbatim>\<open>updateend\<close> listener. It is bound to the source buffer, so it runs only once
  that exists. An error it returns is thrown out of the listener, to the event loop.
\<close>

definition on_updateend ::
  "('a, 'p) platform \<Rightarrow> ('a, 'p) media_source_player
     \<Rightarrow> js_error option \<times> ('a, 'p) media_source_player"
where
  "on_updateend P s =
     (case sourceBuffer s of
        None \<Rightarrow> (None, s)
      | Some p \<Rightarrow>
          if sb_updating P p then (None, s)
          else (case dataQueue s of
                  [] \<Rightarrow> (None, s\<lparr>directFeed := True\<rparr>)
                | data # rest \<Rightarrow>
                    (case sb_appendBuffer P data p of
                       (None, p1) \<Rightarrow>
                         (None, s\<lparr>sourceBuffer := Some p1,
                                  calls := calls s @ [AppendBuffer data None],
                                  dataQueue := rest\<rparr>)
                     | (Some err, p1) \<Rightarrow>
                         if err_name err = ''QuotaExceededError'' then
                           quota_recovery P data p1 (calls s @ [AppendBuffer data (Some err)]) s
                         else
                           (Some err, s\<lparr>sourceBuffer := Some p1,
                                        calls := calls s @ [AppendBuffer data (Some err)]\<rparr>))))"

section \<open>Histories of one player\<close>

text \<open>
  Everything that can happen to one player: the calls of its API, the events the
  platform fires at it, and the platform changing the primitive between two tasks
  (an append completing, the buffer filling up), which the player does not see.
\<close>

datatype ('a, 'p) event =
    EvAttach el_ref
  | EvSourceOpen
  | EvReadyState ready_state
  | EvDetach
  | EvFeed 'a
  | EvUpdateEnd
  | EvPlatform 'p

fun step ::
  "('a, 'p) platform \<Rightarrow> ('a, 'p) event \<Rightarrow> dom \<times> ('a, 'p) media_source_player
     \<Rightarrow> js_error option \<times> dom \<times> ('a, 'p) media_source_player"
where
  "step P (EvAttach el) (D, s) = attach P el D s"
| "step P EvSourceOpen (D, s) = (case on_sourceopen P s of (r, s1) \<Rightarrow> (r, D, s1))"
| "step P (EvReadyState rs) (D, s) = (None, D, s\<lparr>readyState := rs\<rparr>)"
| "step P EvDetach (D, s) = detach D s"
| "step P (EvFeed data) (D, s) = (case feed P data s of (r, s1) \<Rightarrow> (r, D, s1))"
| "step P EvUpdateEnd (D, s) = (case on_updateend P s of (r, s1) \<Rightarrow> (r, D, s1))"
| "step P (EvPlatform p) (D, s) =
     (None, D, (case sourceBuffer s of None \<Rightarrow> s | Some _ \<Rightarrow> s\<lparr>sourceBuffer := Some p\<rparr>))"

text \<open>
  A history runs event by event. A thrown error goes to whoever made the call (or to
  the event loop); the player keeps the state it had when the error was thrown.
\<close>

fun run ::
  "('a, 'p) platform \<Rightarrow> ('a, 'p) event list \<Rightarrow> dom \<times> ('a, 'p) media_source_player
     \<Rightarrow> dom \<times> ('a, 'p) media_source_player"
where
  "run P [] w = w"
| "run P (ev # evs) w = run P evs (snd (step P ev w))"

text \<open>The segments of a history whose \<^verbatim>\<open>feed\<close> call returned normally, in call order.\<close>

fun fed ::
  "('a, 'p) platform \<Rightarrow> ('a, 'p) event list \<Rightarrow> dom \<times> ('a, 'p) media_source_player \<Rightarrow> 'a list"
where
  "fed P [] w = []"
| "fed P (EvFeed data # evs) w =
     (case fst (step P (EvFeed data) w) of
        None \<Rightarrow> data # fed P evs (snd (step P (EvFeed data) w))
      | Some err \<Rightarrow> fed P evs (snd (step P (EvFeed data) w)))"
| "fed P (ev # evs) w = fed P evs (snd (step P ev w))"

text \<open>Every segment a history passes to \<^verbatim>\<open>feed\<close>, in call order.\<close>

fun feeds :: "('a, 'p) event list \<Rightarrow> 'a list" where
  "feeds [] = []"
| "feeds (EvFeed data # evs) = data # feeds evs"
| "feeds (ev # evs) = feeds evs"

section \<open>AudioProxy.handshake\<close>

text \<open>
  The values the plugin passes around: settings read from the host UI and the
  arguments of \<^verbatim>\<open>handshake\<close>. Numbers are the integers.
\<close>

datatype js_value = JNull | JUndefined | JBool bool | JNum int | JStr string

definition digit_char :: "nat \<Rightarrow> char" where
  "digit_char n = ''0123456789'' ! (n mod 10)"

function string_of_nat :: "nat \<Rightarrow> string" where
  "string_of_nat n =
     (if n < 10 then [digit_char n] else string_of_nat (n div 10) @ [digit_char n])"
  by pat_completeness auto
termination
  by (relation "measure id") auto

declare string_of_nat.simps [simp del]

text \<open>What a template literal \<^verbatim>\<open>${v}\<close> puts into the string.\<close>

fun to_string :: "js_value \<Rightarrow> string" where
  "to_string JNull = ''null''"
| "to_string JUndefined = ''undefined''"
| "to_string (JBool b) = (if b then ''true'' else ''false'')"
| "to_string (JNum i) = (if i < 0 then ''-'' @ string_of_nat (nat (- i)) else string_of_nat (nat i))"
| "to_string (JStr s) = s"

text \<open>A parameter with a default takes it when the argument is \<^verbatim>\<open>undefined\<close>.\<close>

definition default_param :: "js_value \<Rightarrow> js_value \<Rightarrow> js_value" where
  "default_param d v = (if v = JUndefined then d else v)"

text \<open>\<^verbatim>\<open>v != null\<close>, the loose inequality.\<close>

definition not_nullish :: "js_value \<Rightarrow> bool" where
  "not_nullish v = (v \<noteq> JNull \<and> v \<noteq> JUndefined)"

text \<open>
  \<^verbatim>\<open>handshake(socket, codec = 'opus', bitrate = 96000, sampleRate = 48000, secret = null)\<close>:
  the text it builds and sends.
\<close>

definition handshakeMsg :: "js_value \<Rightarrow> js_value \<Rightarrow> js_value \<Rightarrow> js_value \<Rightarrow> string" where
  "handshakeMsg codec0 bitrate0 sampleRate0 secret0 =
     (let codec = default_param (JStr ''opus'') codec0;
          bitrate = default_param (JNum 96000) bitrate0;
          sampleRate = default_param (JNum 48000) sampleRate0;
          secret = default_param JNull secret0;
          msg = ''CD:'' @ to_string codec @ ''\<newline>BR:'' @ to_string bitrate
                @ ''\<newline>SR:'' @ to_string sampleRate @ ''\<newline>\<newline>'';
          msg1 = (if not_nullish secret then msg @ ''sec:'' @ to_string secret else msg)
      in msg1 @ ''\<newline>'')"

text \<open>
  Text on the channel is taken to be ASCII: there \<^verbatim>\<open>TextEncoder.encode\<close> and
  \<^verbatim>\<open>TextDecoder.decode\<close> change nothing, and the characters \<^verbatim>\<open>trim()\<close> removes are
  tab, line feed, vertical tab, form feed, carriage return and space.
\<close>

definition ascii :: "string \<Rightarrow> bool" where
  "ascii s = list_all (\<lambda>c. (of_char c :: nat) < 128) s"

definition js_whitespace :: "char \<Rightarrow> bool" where
  "js_whitespace c = (c \<in> set [CHR 0x09, CHR 0x0A, CHR 0x0B, CHR 0x0C, CHR 0x0D, CHR 0x20])"

definition trim :: "string \<Rightarrow> string" where
  "trim s = rev (dropWhile js_whitespace (rev (dropWhile js_whitespace s)))"

text \<open>
  The once-only \<^verbatim>\<open>message\<close> listener of \<^verbatim>\<open>handshake\<close>. It either calls \<^verbatim>\<open>resolve\<close>
  or throws; a throw leaves the listener, not the promise, which has no \<^verbatim>\<open>reject\<close>.
\<close>

datatype listener_outcome = Resolves | Throws js_error

definition handshake_listener :: "string \<Rightarrow> listener_outcome" where
  "handshake_listener data =
     (let resp = trim data in
      if resp = ''READY'' then Resolves
      else if take 4 resp = ''ERR:'' then Throws (new_Error (''Proxy error: '' @ drop 4 resp))
      else Throws (new_Error ''Protocol error''))"

section \<open>AudioPlugin\<close>

text \<open>
  The channel the plugin holds in \<^verbatim>\<open>ws\<close>: what \<^verbatim>\<open>startAudio\<close> gave it, the variables
  of that \<^verbatim>\<open>startAudio\<close> call its listeners close over, which \<^verbatim>\<open>message\<close> listeners
  are bound to it, and the \<^verbatim>\<open>await\<close> its \<^verbatim>\<open>open\<close> listener is suspended at. A channel
  or player the plugin has dropped is not followed any further.
\<close>

datatype suspension = NotSuspended | AwaitAttach | AwaitHandshake

record websocket =
  url :: string
  binaryType :: string
  cl_codec :: js_value
  cl_bitrate :: js_value
  cl_samplerate :: js_value
  cl_mime :: string
  handshakeListener :: bool
  feedListener :: bool
  suspended :: suspension

text \<open>What the plugin does to its collaborators, in order.\<close>

datatype effect =
    ShowStatus string "string option"
  | WsSend string
  | WsClose
  | MspDetach

text \<open>
  \<^verbatim>\<open>AudioPlugin\<close> with its surroundings: the fields \<^verbatim>\<open>msp\<close>, \<^verbatim>\<open>ws\<close> and \<^verbatim>\<open>audioEl\<close>, the
  page's elements, \<^verbatim>\<open>NVUI.getSetting\<close>, \<^verbatim>\<open>NVUI.connected\<close>, whether the one-shot click
  listener is armed, and the effects so far. Segments are the payloads of the
  channel's messages.
\<close>

record 'p audio_plugin =
  msp :: "(string, 'p) media_source_player option"
  ws :: "websocket option"
  audioEl :: el_ref
  elements :: dom
  getSetting :: "string \<Rightarrow> js_value"
  connected :: bool
  clickArmed :: bool
  effects :: "effect list"

definition showStatus :: "string \<Rightarrow> string option \<Rightarrow> 'p audio_plugin \<Rightarrow> 'p audio_plugin" where
  "showStatus msg ty S = S\<lparr>effects := effects S @ [ShowStatus msg ty]\<rparr>"

text \<open>\<^verbatim>\<open>async stopAudio()\<close>, run to its end.\<close>

definition stopAudio :: "'p audio_plugin \<Rightarrow> js_error option \<times> 'p audio_plugin" where
  "stopAudio S =
     (case (case msp S of
              None \<Rightarrow> (None, S)
            | Some m \<Rightarrow>
                (case detach (elements S) m of
                   (Some err, D, m1) \<Rightarrow>
                     (Some err, S\<lparr>elements := D, msp := Some m1, effects := effects S @ [MspDetach]\<rparr>)
                 | (None, D, m1) \<Rightarrow>
                     (None, S\<lparr>elements := D, msp := None, effects := effects S @ [MspDetach]\<rparr>)))
      of
        (Some err, S1) \<Rightarrow> (Some err, S1)
      | (None, S1) \<Rightarrow>
          (case ws S1 of
             None \<Rightarrow> (None, S1)
           | Some w \<Rightarrow> (None, S1\<lparr>ws := None, effects := effects S1 @ [WsClose]\<rparr>)))"

text \<open>The \<^verbatim>\<open>switch (codec)\<close> of \<^verbatim>\<open>startAudio\<close>; \<open>None\<close> is its \<^verbatim>\<open>default\<close> branch.\<close>

definition mime_of :: "js_value \<Rightarrow> string option" where
  \<open>mime_of codec =
     (if codec = JStr ''opus'' then Some ''audio/webm; codecs="opus"''
      else if codec = JStr ''aac'' then Some ''audio/mp4; codecs="mp4a.40.2"''
      else None)\<close>

fun truthy :: "js_value \<Rightarrow> bool" where
  "truthy JNull = False"
| "truthy JUndefined = False"
| "truthy (JBool b) = b"
| "truthy (JNum i) = (i \<noteq> 0)"
| "truthy (JStr s) = (s \<noteq> [])"

text \<open>
  \<^verbatim>\<open>async startAudio()\<close>. It has no \<^verbatim>\<open>await\<close> of its own: the rest happens in the
  listeners it binds to the new channel.
\<close>

definition startAudio :: "'p audio_plugin \<Rightarrow> js_error option \<times> 'p audio_plugin" where
  "startAudio S =
     (if msp S \<noteq> None then (None, S)
      else
        (let codec = getSetting S ''audio_codec'';
             bitrate = getSetting S ''audio_bitrate'';
             samplerate = getSetting S ''audio_samplerate''
         in case mime_of codec of
              None \<Rightarrow> (Some (new_Error (''Unsupported codec '' @ to_string codec)), S)
            | Some mime \<Rightarrow>
                (let wsSchema = (if truthy (getSetting S ''audio_encrypt'') then ''wss://'' else ''ws://'');
                     wsHost = getSetting S ''audio_host'';
                     wsPort = getSetting S ''audio_port'';
                     wsPath = getSetting S ''audio_path''
                 in (None,
                     S\<lparr>ws := Some
                        \<lparr>url = wsSchema @ to_string wsHost @ '':'' @ to_string wsPort
                                @ ''/'' @ to_string wsPath,
                         binaryType = ''arraybuffer'',
                         cl_codec = codec, cl_bitrate = bitrate, cl_samplerate = samplerate,
                         cl_mime = mime,
                         handshakeListener = False, feedListener = False,
                         suspended = NotSuspended\<rparr>\<rparr>))))"

text \<open>The \<^verbatim>\<open>error\<close> and \<^verbatim>\<open>close\<close> listeners of the channel.\<close>

definition ws_on_error :: "'p audio_plugin \<Rightarrow> js_error option \<times> 'p audio_plugin" where
  "ws_on_error S =
     stopAudio (if connected S
                then showStatus ''Audio WebSocket connection failed'' (Some ''error'') S
                else S)"

definition ws_on_close :: "'p audio_plugin \<Rightarrow> js_error option \<times> 'p audio_plugin" where
  "ws_on_close S =
     (if msp S = None then (None, S)
      else stopAudio (if connected S
                      then showStatus ''Audio WebSocket connection closed'' (Some ''error'') S
                      else S))"

text \<open>
  The \<^verbatim>\<open>open\<close> listener up to \<^verbatim>\<open>await this.msp.attach(this.audioEl)\<close>. The message of the
  first \<^verbatim>\<open>catch\<close> is shown without a type.
\<close>

definition ws_on_open ::
  "(string, 'p) platform \<Rightarrow> 'p audio_plugin \<Rightarrow> js_error option \<times> 'p audio_plugin"
where
  "ws_on_open P S =
     (case ws S of
        None \<Rightarrow> (None, S)
      | Some w \<Rightarrow>
          (case attach P (audioEl S) (elements S) (new_MediaSourcePlayer (cl_mime w)) of
             (Some err, D, m) \<Rightarrow>
               stopAudio
                 (showStatus (''MediaSource initialization failed: '' @ err_message err) None
                    (S\<lparr>msp := Some m, elements := D\<rparr>))
           | (None, D, m) \<Rightarrow>
               (None, S\<lparr>msp := Some m, elements := D,
                        ws := Some (w\<lparr>suspended := AwaitAttach\<rparr>)\<rparr>)))"

text \<open>
  The \<^verbatim>\<open>open\<close> listener from the resolution of \<^verbatim>\<open>attach\<close> to
  \<^verbatim>\<open>await AudioProxy.handshake(this.ws, codec, bitrate, samplerate)\<close>: the handshake sends
  its text and binds its listener. With no channel, \<^verbatim>\<open>socket.send\<close> throws inside the
  \<^verbatim>\<open>try\<close>.
\<close>

definition after_attach :: "'p audio_plugin \<Rightarrow> js_error option \<times> 'p audio_plugin" where
  "after_attach S =
     (case ws S of
        None \<Rightarrow>
          stopAudio
            (showStatus (''Audio handshake failed: '' @ err_message null_access)
               (Some ''error'') S)
      | Some w \<Rightarrow>
          (None,
           S\<lparr>ws := Some (w\<lparr>handshakeListener := True, suspended := AwaitHandshake\<rparr>),
             effects := effects S
               @ [WsSend (handshakeMsg (cl_codec w) (cl_bitrate w) (cl_samplerate w) JUndefined)]\<rparr>))"

text \<open>
  The \<^verbatim>\<open>sourceopen\<close> event of the current player's media source: the constructor's
  listener, then the one \<^verbatim>\<open>attach\<close> bound, which resolves its promise and lets the
  \<^verbatim>\<open>open\<close> listener go on. An error of the first listener goes to the event loop.
\<close>

definition on_msp_sourceopen ::
  "(string, 'p) platform \<Rightarrow> 'p audio_plugin \<Rightarrow> js_error option \<times> 'p audio_plugin"
where
  "on_msp_sourceopen P S =
     (case msp S of
        None \<Rightarrow> (None, S)
      | Some m \<Rightarrow>
          (case on_sourceopen P m of
             (r, m1) \<Rightarrow>
               (let S1 = S\<lparr>msp := Some m1\<rparr> in
                case ws S1 of
                  None \<Rightarrow> (r, S1)
                | Some w \<Rightarrow>
                    if suspended w = AwaitAttach then (r, snd (after_attach S1)) else (r, S1))))"

text \<open>
  The \<^verbatim>\<open>open\<close> listener after the handshake's promise has resolved: it binds the
  listener that feeds the player and arms the click listener. This part is outside
  any \<^verbatim>\<open>try\<close>.
\<close>

definition after_handshake :: "'p audio_plugin \<Rightarrow> js_error option \<times> 'p audio_plugin" where
  "after_handshake S =
     (case ws S of
        None \<Rightarrow> (Some null_access, S)
      | Some w \<Rightarrow>
          (None,
           S\<lparr>ws := Some (w\<lparr>feedListener := True, suspended := NotSuspended\<rparr>),
             clickArmed := True\<rparr>))"

text \<open>The \<^verbatim>\<open>message\<close> listener \<^verbatim>\<open>startAudio\<close> binds after the handshake.\<close>

definition feed_listener ::
  "(string, 'p) platform \<Rightarrow> string \<Rightarrow> 'p audio_plugin \<Rightarrow> js_error option \<times> 'p audio_plugin"
where
  "feed_listener P data S =
     (case msp S of
        None \<Rightarrow>
          stopAudio
            (showStatus (''Audio failure: '' @ err_message null_access) (Some ''error'') S)
      | Some m \<Rightarrow>
          (case feed P data m of
             (None, m1) \<Rightarrow> (None, S\<lparr>msp := Some m1\<rparr>)
           | (Some err, m1) \<Rightarrow>
               stopAudio
                 (showStatus (''Audio failure: '' @ err_message err) (Some ''error'')
                    (S\<lparr>msp := Some m1\<rparr>))))"

text \<open>
  A binary message on the channel. While the handshake's once-only listener is bound
  it takes the message: on \<^verbatim>\<open>resolve\<close> the \<^verbatim>\<open>open\<close> listener goes on, on a throw the
  error goes to the event loop and the promise stays pending. Afterwards the feeding
  listener, if bound, takes it.
\<close>

definition ws_on_message ::
  "(string, 'p) platform \<Rightarrow> string \<Rightarrow> 'p audio_plugin \<Rightarrow> js_error option \<times> 'p audio_plugin"
where
  "ws_on_message P data S =
     (case ws S of
        None \<Rightarrow> (None, S)
      | Some w \<Rightarrow>
          if handshakeListener w then
            (let S1 = S\<lparr>ws := Some (w\<lparr>handshakeListener := False\<rparr>)\<rparr> in
             case handshake_listener data of
               Resolves \<Rightarrow> after_handshake S1
             | Throws err \<Rightarrow> (Some err, S1))
          else if feedListener w then feed_listener P data S
          else (None, S))"

text \<open>Histories of the plugin.\<close>

datatype 'p plugin_event =
    StartAudio
  | StopAudio
  | WsOpen
  | WsError
  | WsClosed
  | WsMessage string
  | MspSourceOpen
  | MspUpdateEnd
  | MspPlatform 'p

fun plugin_step ::
  "(string, 'p) platform \<Rightarrow> 'p plugin_event \<Rightarrow> 'p audio_plugin
     \<Rightarrow> js_error option \<times> 'p audio_plugin"
where
  "plugin_step P StartAudio S = startAudio S"
| "plugin_step P StopAudio S = stopAudio S"
| "plugin_step P WsOpen S = ws_on_open P S"
| "plugin_step P WsError S = (case ws S of None \<Rightarrow> (None, S) | Some _ \<Rightarrow> ws_on_error S)"
| "plugin_step P WsClosed S = (case ws S of None \<Rightarrow> (None, S) | Some _ \<Rightarrow> ws_on_close S)"
| "plugin_step P (WsMessage data) S = ws_on_message P data S"
| "plugin_step P MspSourceOpen S = on_msp_sourceopen P S"
| "plugin_step P MspUpdateEnd S =
     (case msp S of
        None \<Rightarrow> (None, S)
      | Some m \<Rightarrow> (case on_updateend P m of (r, m1) \<Rightarrow> (r, S\<lparr>msp := Some m1\<rparr>)))"
| "plugin_step P (MspPlatform p) S =
     (case msp S of
        None \<Rightarrow> (None, S)
      | Some m \<Rightarrow>
          (None, S\<lparr>msp := Some (snd (snd (step P (EvPlatform p) (elements S, m))))\<rparr>))"

fun plugin_run ::
  "(string, 'p) platform \<Rightarrow> 'p plugin_event list \<Rightarrow> 'p audio_plugin \<Rightarrow> 'p audio_plugin"
where
  "plugin_run P [] S = S"
| "plugin_run P (ev # evs) S = plugin_run P evs (snd (plugin_step P ev S))"

section \<open>A fake primitive and a page\<close>

text \<open>
  A primitive for running the definitions: it refuses a call while it is updating,
  raises the capacity fault when it is full, and otherwise becomes busy, unless it is
  set to complete its work synchronously. Eviction makes room.
\<close>

record fake_sb =
  f_updating :: bool
  f_buffered :: "(real \<times> real) list"
  f_full :: bool
  f_sync :: bool

definition quota_exceeded :: js_error where
  "quota_exceeded = JsError ''QuotaExceededError'' ''The SourceBuffer is full''"

definition invalid_state :: js_error where
  "invalid_state = JsError ''InvalidStateError'' ''The SourceBuffer is updating''"

definition fake :: "('a, fake_sb) platform" where
  "fake =
     \<lparr>createObjectURL = ''blob:audio'',
      addSourceBuffer =
        (\<lambda>m. Inr \<lparr>f_updating = False, f_buffered = [], f_full = False, f_sync = False\<rparr>),
      sb_updating = f_updating,
      sb_appendBuffer = (\<lambda>d p.
         if f_updating p then (Some invalid_state, p)
         else if f_full p then (Some quota_exceeded, p)
         else (None, p\<lparr>f_updating := \<not> f_sync p\<rparr>)),
      sb_buffered = f_buffered,
      sb_remove = (\<lambda>a b p.
         if f_updating p then (Some invalid_state, p)
         else (None, p\<lparr>f_updating := \<not> f_sync p, f_full := False\<rparr>))\<rparr>"

definition full_at :: "real \<Rightarrow> bool \<Rightarrow> fake_sb" where
  "full_at e sync = \<lparr>f_updating = False, f_buffered = [(0, e)], f_full = True, f_sync = sync\<rparr>"

definition page :: dom where
  "page = (\<lambda>_. \<lparr>src = None, playListener = False, paused = True, currentTime = 0, seekable = []\<rparr>)"

definition opus_mime :: string where
  \<open>opus_mime = ''audio/webm; codecs="opus"''\<close>

text \<open>A player with one segment in flight, one queued, and the primitive then full.\<close>

definition queued_full :: "real \<Rightarrow> bool \<Rightarrow> (nat, fake_sb) media_source_player" where
  "queued_full e sync =
     snd (run fake [EvAttach 0, EvSourceOpen, EvFeed 1, EvFeed 2, EvPlatform (full_at e sync)]
            (page, new_MediaSourcePlayer opus_mime))"

text \<open>A player back on the direct path, with the primitive full.\<close>

definition direct_full :: "dom \<times> (nat, fake_sb) media_source_player" where
  "direct_full =
     run fake [EvAttach 0, EvSourceOpen, EvFeed 1, EvPlatform (full_at 100 False), EvUpdateEnd]
       (page, new_MediaSourcePlayer opus_mime)"

text \<open>The settings of a user who chose Opus and typed a secret.\<close>

definition user_settings :: "string \<Rightarrow> js_value" where
  "user_settings name =
     (if name = ''audio_enabled'' then JBool True
      else if name = ''audio_codec'' then JStr ''opus''
      else if name = ''audio_bitrate'' then JStr ''96000''
      else if name = ''audio_samplerate'' then JStr ''48000''
      else if name = ''audio_secret'' then JStr ''hunter2''
      else if name = ''audio_encrypt'' then JBool False
      else if name = ''audio_host'' then JStr ''localhost''
      else if name = ''audio_port'' then JStr ''8080''
      else if name = ''audio_path'' then JStr ''websockify?token=audio''
      else JNull)"

definition idle_plugin :: "fake_sb audio_plugin" where
  "idle_plugin =
     \<lparr>msp = None, ws = None, audioEl = 0, elements = page, getSetting = user_settings,
      connected = True, clickArmed = False, effects = []\<rparr>"

text \<open>The plugin waiting for the answer to its handshake.\<close>

definition handshaking :: "fake_sb audio_plugin" where
  "handshaking = plugin_run fake [StartAudio, WsOpen, MspSourceOpen] idle_plugin"

section \<open>Order of appends\<close>

text \<open>
  While the direct path is enabled nothing is queued; what has gone to the primitive
  followed by what is queued is the player's view of the stream.
\<close>

definition queue_inv :: "('a, 'p) media_source_player \<Rightarrow> bool" where
  "queue_inv s = (if directFeed s then dataQueue s = [] else True)"

definition delivered :: "('a, 'p) media_source_player \<Rightarrow> 'a list" where
  "delivered s = appended (calls s) @ dataQueue s"

lemma appended_append: "appended (xs @ ys) = appended xs @ appended ys"
  by (induction xs rule: appended.induct) simp_all

lemma removals_append: "removals (xs @ ys) = removals xs @ removals ys"
  by (induction xs rule: removals.induct) simp_all

lemma feed_queue_inv: "queue_inv s \<Longrightarrow> queue_inv (snd (feed P d s))"
  by (auto simp: feed_def queue_inv_def split: option.splits prod.splits if_splits)

lemma feed_delivered:
  "queue_inv s \<Longrightarrow>
     delivered (snd (feed P d s)) =
       delivered s @ (case fst (feed P d s) of None \<Rightarrow> [d] | Some e \<Rightarrow> [])"
  by (auto simp: feed_def queue_inv_def delivered_def appended_append
           split: option.splits prod.splits if_splits)

lemma quota_recovery_directFeed:
  "\<not> directFeed s \<Longrightarrow> \<not> directFeed (snd (quota_recovery P d p cs s))"
  by (auto simp: quota_recovery_def Let_def split: list.splits option.splits prod.splits)

lemma quota_recovery_delivered:
  "dataQueue s = d # rest \<Longrightarrow>
     delivered (snd (quota_recovery P d p cs s)) = appended cs @ d # rest"
  by (auto simp: quota_recovery_def Let_def delivered_def appended_append
           split: list.splits option.splits prod.splits)

lemma on_updateend_queue_inv: "queue_inv s \<Longrightarrow> queue_inv (snd (on_updateend P s))"
  by (auto simp: on_updateend_def queue_inv_def quota_recovery_directFeed
           split: option.splits prod.splits list.splits if_splits)

lemma on_updateend_delivered: "delivered (snd (on_updateend P s)) = delivered s"
proof (cases "sourceBuffer s")
  case None
  then show ?thesis by (simp add: on_updateend_def)
next
  case (Some p)
  show ?thesis
  proof (cases "dataQueue s")
    case Nil
    with Some show ?thesis by (simp add: on_updateend_def delivered_def)
  next
    case (Cons d rest)
    with Some quota_recovery_delivered[OF Cons] show ?thesis
      by (auto simp: on_updateend_def delivered_def appended_append
               split: prod.splits option.splits)
  qed
qed

lemma step_queue_inv: "queue_inv (snd w) \<Longrightarrow> queue_inv (snd (snd (step P ev w)))"
proof (cases w)
  case (Pair D s)
  assume "queue_inv (snd w)"
  with Pair have I: "queue_inv s" by simp
  show ?thesis
  proof (cases ev)
    case (EvFeed d)
    with Pair feed_queue_inv[OF I, of P d] show ?thesis by (auto split: prod.splits)
  next
    case EvUpdateEnd
    with Pair on_updateend_queue_inv[OF I, of P] show ?thesis by (auto split: prod.splits)
  qed (use Pair I in \<open>auto simp: queue_inv_def attach_def detach_def on_sourceopen_def Let_def
                         split: option.splits sum.splits prod.splits if_splits\<close>)
qed

lemma step_delivered_other:
  "(\<And>d. ev \<noteq> EvFeed d) \<Longrightarrow> delivered (snd (snd (step P ev w))) = delivered (snd w)"
proof (cases w)
  case (Pair D s)
  assume nf: "\<And>d. ev \<noteq> EvFeed d"
  show ?thesis
  proof (cases ev)
    case (EvFeed d)
    with nf show ?thesis by blast
  next
    case EvUpdateEnd
    with Pair on_updateend_delivered[of P s] show ?thesis by (auto split: prod.splits)
  qed (use Pair in \<open>auto simp: delivered_def attach_def detach_def on_sourceopen_def Let_def
                         split: option.splits sum.splits prod.splits if_splits\<close>)
qed

lemma run_delivered:
  "queue_inv (snd w) \<Longrightarrow> delivered (snd (run P evs w)) = delivered (snd w) @ fed P evs w"
proof (induction evs arbitrary: w)
  case Nil
  then show ?case by simp
next
  case (Cons ev evs)
  have I: "queue_inv (snd (snd (step P ev w)))" using Cons.prems by (rule step_queue_inv)
  note IH = Cons.IH[OF I]
  show ?case
  proof (cases "\<exists>d. ev = EvFeed d")
    case True
    then obtain d where ev: "ev = EvFeed d" by blast
    obtain D s where w: "w = (D, s)" by (cases w)
    from Cons.prems w have Is: "queue_inv s" by simp
    show ?thesis using IH feed_delivered[OF Is, of P d] ev w
      by (auto split: prod.splits option.splits)
  next
    case False
    then have nf: "\<And>d. ev \<noteq> EvFeed d" by blast
    have "fed P (ev # evs) w = fed P evs (snd (step P ev w))"
      using nf by (cases ev) auto
    then show ?thesis using IH step_delivered_other[OF nf, of P w] by simp
  qed
qed

lemma fed_subseq: "subseq (fed P evs w) (feeds evs)"
proof (induction evs arbitrary: w)
  case Nil
  then show ?case by simp
next
  case (Cons ev evs)
  show ?case
  proof (cases ev)
    case (EvFeed d)
    have "subseq (fed P evs (snd (step P (EvFeed d) w))) (feeds evs)" by (rule Cons.IH)
    then have "subseq (fed P evs (snd (step P (EvFeed d) w))) (d # feeds evs)"
      and "subseq (d # fed P evs (snd (step P (EvFeed d) w))) (d # feeds evs)"
      by (simp_all add: list_emb_Cons)
    with EvFeed show ?thesis by (simp split: option.splits)
  qed (use Cons.IH[of "snd (step P ev w)"] in simp_all)
qed

text \<open>
  C1. Take a new player and any history of it: attach, detach, the media source
  opening or changing state, feeds, update-end events, and the primitive changing
  between them, whatever the primitive does. Then the segments the primitive
  accepted, in the order it accepted them, followed by the segments still queued,
  are exactly the segments whose \<^verbatim>\<open>feed\<close> call returned normally, in call order; and
  those are the fed segments in call order with the refused ones left out. So the
  primitive receives segments in the order \<^verbatim>\<open>feed\<close> was called, on either path.
\<close>

theorem feed_order_preserved:
  "appended (calls (snd (run P evs (D, new_MediaSourcePlayer m))))
     @ dataQueue (snd (run P evs (D, new_MediaSourcePlayer m)))
   = fed P evs (D, new_MediaSourcePlayer m)
   \<and> subseq (fed P evs (D, new_MediaSourcePlayer m)) (feeds evs)"
proof -
  have "queue_inv (snd (D, new_MediaSourcePlayer m :: ('a, 'b) media_source_player))"
    by (simp add: queue_inv_def new_MediaSourcePlayer_def)
  from run_delivered[OF this, of P evs]
  show ?thesis by (simp add: delivered_def new_MediaSourcePlayer_def fed_subseq)
qed

text \<open>
  Three feeds against the fake primitive: the first goes the direct way, the other
  two wait in the queue, and two completed appends later all three have reached the
  primitive in the order they were fed.
\<close>

lemma feed_order_example:
  "appended (calls (snd (run fake
      [EvAttach 0, EvSourceOpen, EvFeed 1, EvFeed 2, EvFeed 3,
       EvPlatform \<lparr>f_updating = False, f_buffered = [(0, 1)], f_full = False, f_sync = False\<rparr>,
       EvUpdateEnd,
       EvPlatform \<lparr>f_updating = False, f_buffered = [(0, 2)], f_full = False, f_sync = False\<rparr>,
       EvUpdateEnd]
      (page, new_MediaSourcePlayer opus_mime)))) = [1, 2, 3::nat]"
  by (simp add: feed_def attach_def on_sourceopen_def on_updateend_def
        new_MediaSourcePlayer_def fake_def)

section \<open>Capacity faults\<close>

lemma evict_end_max:
  "bufferedEnd - 30 \<le> 0 \<or> 1 \<le> bufferedEnd - 30 \<Longrightarrow>
     evict_end bufferedEnd = max 1 (bufferedEnd - 30)"
  by (auto simp: evict_end_def BUFFER_MIN_REMAIN_def)

text \<open>
  C2, as the claim states it, fails: with the buffered range ending at 30.5 the
  listener evicts up to 0.5, not up to \<open>max 1 (30.5 - 30) = 1\<close>.
\<close>

theorem quota_eviction_range_counterexample:
  "removals (calls (snd (on_updateend fake (queued_full (61 / 2) False)))) = [(0, 1 / 2)]
   \<and> (1 / 2 :: real) \<noteq> max 1 (61 / 2 - 30)"
  by (simp add: queued_full_def full_at_def on_updateend_def quota_recovery_def evict_end_def
        BUFFER_MIN_REMAIN_def feed_def attach_def on_sourceopen_def new_MediaSourcePlayer_def
        fake_def quota_exceeded_def)

text \<open>
  C2, amended. The update-end listener runs with the primitive idle and \<open>d\<close> at the
  head of the queue, the append of \<open>d\<close> raises the capacity fault, and a buffered
  range ending at \<open>bufferedEnd\<close> exists. Then the listener makes exactly one eviction
  call, for the range from 0 to \<open>bufferedEnd - 30\<close>, or to 1 when that is zero or
  negative; it appends \<open>d\<close> again, once, if and only if the eviction returned normally
  and left the primitive idle; \<open>d\<close> leaves the queue only when that second append is
  accepted, and otherwise stays at its head.
\<close>

theorem quota_eviction_once:
  assumes "sourceBuffer s = Some p" and "\<not> sb_updating P p" and "dataQueue s = d # rest"
    and "sb_appendBuffer P d p = (Some err, p1)" and "err_name err = ''QuotaExceededError''"
    and "sb_buffered P p1 = (b0, bufferedEnd) # ranges"
    and "sb_remove P 0 (evict_end bufferedEnd) p1 = (ev, p2)"
    and "sb_appendBuffer P d p2 = (ra, p3)"
  shows "evict_end bufferedEnd = (if bufferedEnd - 30 \<le> 0 then 1 else bufferedEnd - 30)
    \<and> calls (snd (on_updateend P s)) =
        calls s @ [AppendBuffer d (Some err), Remove 0 (evict_end bufferedEnd) ev]
          @ (if ev = None \<and> \<not> sb_updating P p2 then [AppendBuffer d ra] else [])
    \<and> removals (calls (snd (on_updateend P s))) =
        removals (calls s) @ [(0, evict_end bufferedEnd)]
    \<and> dataQueue (snd (on_updateend P s)) =
        (if ev = None \<and> \<not> sb_updating P p2 \<and> ra = None then rest else d # rest)
    \<and> appended (calls (snd (on_updateend P s))) @ dataQueue (snd (on_updateend P s)) =
        appended (calls s) @ d # rest
    \<and> fst (on_updateend P s) =
        (if ev \<noteq> None then ev else if sb_updating P p2 then None else ra)"
  using assms
  by (cases ev; cases ra)
     (simp_all add: on_updateend_def quota_recovery_def evict_end_def BUFFER_MIN_REMAIN_def
        appended_append removals_append)

lemma queued_full_eq:
  "queued_full e sync =
     \<lparr>ctor_mime = opus_mime, readyState = Open, sourceopenArmed = False,
      sourceBuffer = Some (full_at e sync), directFeed = False, dataQueue = [2],
      attachedEl = Some 0, calls = [AppendBuffer 1 None]\<rparr>"
  by (simp add: queued_full_def feed_def attach_def on_sourceopen_def new_MediaSourcePlayer_def
        fake_def)

theorem quota_eviction_once_witness:
  "sourceBuffer (queued_full 100 True) = Some (full_at 100 True)
   \<and> dataQueue (queued_full 100 True) = [2]
   \<and> sb_appendBuffer fake (2::nat) (full_at 100 True) = (Some quota_exceeded, full_at 100 True)
   \<and> calls (snd (on_updateend fake (queued_full 100 True))) =
       [AppendBuffer 1 None, AppendBuffer 2 (Some quota_exceeded), Remove 0 70 None,
        AppendBuffer 2 None]
   \<and> dataQueue (snd (on_updateend fake (queued_full 100 True))) = []
   \<and> calls (snd (on_updateend fake (queued_full 100 False))) =
       [AppendBuffer 1 None, AppendBuffer 2 (Some quota_exceeded), Remove 0 70 None]
   \<and> dataQueue (snd (on_updateend fake (queued_full 100 False))) = [2]"
  using
    quota_eviction_once [of "queued_full 100 True" "full_at 100 True" fake 2 "[]"
      quota_exceeded "full_at 100 True" 0 100 "[]" None
      "(full_at 100 True)\<lparr>f_full := False\<rparr>" None "(full_at 100 True)\<lparr>f_full := False\<rparr>"]
    quota_eviction_once [of "queued_full 100 False" "full_at 100 False" fake 2 "[]"
      quota_exceeded "full_at 100 False" 0 100 "[]" None
      "(full_at 100 False)\<lparr>f_full := False, f_updating := True\<rparr>" "Some invalid_state"
      "(full_at 100 False)\<lparr>f_full := False, f_updating := True\<rparr>"]
  by (simp add: queued_full_eq full_at_def fake_def quota_exceeded_def evict_end_def
        BUFFER_MIN_REMAIN_def)

text \<open>
  C3. The claim is what the update-end listener does, and \<^verbatim>\<open>feed\<close> does not: on the
  direct path the append is outside any \<^verbatim>\<open>try\<close>. With the primitive full and the queue
  drained, \<^verbatim>\<open>feed\<close> throws the capacity fault at its caller, evicts nothing, and the
  segment is neither appended nor queued.
\<close>

theorem direct_feed_quota_surfaces:
  "directFeed (snd direct_full)
   \<and> fst (step fake (EvFeed 2) direct_full) = Some quota_exceeded
   \<and> err_name quota_exceeded = ''QuotaExceededError''
   \<and> removals (calls (snd (snd (step fake (EvFeed 2) direct_full)))) = []
   \<and> appended (calls (snd (snd (step fake (EvFeed 2) direct_full)))) = [1]
   \<and> dataQueue (snd (snd (step fake (EvFeed 2) direct_full))) = []"
  by (simp add: direct_full_def full_at_def on_updateend_def feed_def attach_def
        on_sourceopen_def new_MediaSourcePlayer_def fake_def quota_exceeded_def)

section \<open>Guards of feed\<close>

text \<open>
  C8, as the claim states it, fails: between the call of \<^verbatim>\<open>attach\<close> and the media
  source opening, the element is already bound, and \<^verbatim>\<open>feed\<close> throws the bad-state
  error, not the not-attached one.
\<close>

theorem feed_before_open_counterexample:
  "fst (feed fake (7::nat) (snd (run fake [EvAttach 0] (page, new_MediaSourcePlayer opus_mime))))
     = Some (new_Error ''Bad MediaSource state: closed'')
   \<and> fst (feed fake (7::nat) (snd (run fake [EvAttach 0] (page, new_MediaSourcePlayer opus_mime))))
     \<noteq> Some (new_Error ''Not attached to any elements'')"
  by (simp add: feed_def attach_def new_MediaSourcePlayer_def new_Error_def)

text \<open>
  C8, amended. With no element bound (\<^verbatim>\<open>attach\<close> not yet called), \<^verbatim>\<open>feed\<close> throws
  \<open>Not attached to any elements\<close>; with an element bound and the media source not
  open, which includes the time before \<^verbatim>\<open>attach\<close> has completed, it throws
  \<open>Bad MediaSource state\<close> with the state's name. In both cases the player is left as
  it was: nothing is appended, nothing is queued, and the caller gets the error.
\<close>

theorem feed_guards:
  "attachedEl s = None \<or> readyState s \<noteq> Open \<Longrightarrow>
     feed P x s =
       (Some (if attachedEl s = None then new_Error ''Not attached to any elements''
              else new_Error (''Bad MediaSource state: '' @ ready_state_str (readyState s))),
        s)"
  by (auto simp: feed_def)

theorem feed_guards_witness:
  "attachedEl (new_MediaSourcePlayer opus_mime :: (nat, fake_sb) media_source_player) = None
   \<and> feed fake (7::nat) (new_MediaSourcePlayer opus_mime) =
       (Some (new_Error ''Not attached to any elements''), new_MediaSourcePlayer opus_mime)
   \<and> readyState (snd (run fake [EvAttach 0, EvSourceOpen, EvReadyState Ended]
                         (page, new_MediaSourcePlayer opus_mime))) \<noteq> Open
   \<and> fst (feed fake (7::nat) (snd (run fake [EvAttach 0, EvSourceOpen, EvReadyState Ended]
                                     (page, new_MediaSourcePlayer opus_mime))))
       = Some (new_Error ''Bad MediaSource state: ended'')"
  using
    feed_guards [of "new_MediaSourcePlayer opus_mime :: (nat, fake_sb) media_source_player"
      fake "7::nat"]
    feed_guards [of "snd (run fake [EvAttach 0, EvSourceOpen, EvReadyState Ended]
                            (page, new_MediaSourcePlayer opus_mime))" fake "7::nat"]
  by (simp add: attach_def on_sourceopen_def new_MediaSourcePlayer_def fake_def)

section \<open>Detach\<close>

text \<open>
  C7, as the claim states it, fails: \<^verbatim>\<open>detach\<close> leaves \<^verbatim>\<open>#attachedEl\<close> set, so on a
  player that was attached a second \<^verbatim>\<open>attach\<close> is refused also after \<^verbatim>\<open>detach\<close>.
\<close>

theorem attach_after_detach_counterexample:
  "fst (attach fake 0
          (fst (run fake [EvAttach 0, EvSourceOpen, EvDetach]
                  (page, new_MediaSourcePlayer opus_mime :: (nat, fake_sb) media_source_player)))
          (snd (run fake [EvAttach 0, EvSourceOpen, EvDetach]
                  (page, new_MediaSourcePlayer opus_mime))))
     = Some (new_Error ''Already attached to an element'')"
  by (simp add: attach_def detach_def on_sourceopen_def new_MediaSourcePlayer_def fake_def)

text \<open>
  C7, amended. \<^verbatim>\<open>detach\<close> raises no error in any state, and a second \<^verbatim>\<open>detach\<close> right
  after it raises none either and leaves the page and the player as the first one
  did. \<^verbatim>\<open>detach\<close> does not unbind the element: an \<^verbatim>\<open>attach\<close> after it succeeds on a
  player that was never attached, and on any other it is refused with
  \<open>Already attached to an element\<close>.
\<close>

theorem detach_idempotent:
  "fst (detach D s) = None
   \<and> detach (fst (snd (detach D s))) (snd (snd (detach D s))) = detach D s
   \<and> fst (attach P el (fst (snd (detach D s))) (snd (snd (detach D s))))
       = (if attachedEl s = None then None
          else Some (new_Error ''Already attached to an element''))"
  by (auto simp: detach_def attach_def split: option.splits)

text \<open>
  C9, as the claim states it, fails: a segment queued when \<^verbatim>\<open>detach\<close> is called is
  still queued when it returns.
\<close>

theorem detach_queue_counterexample:
  "dataQueue (snd (run fake [EvAttach 0, EvSourceOpen, EvFeed 1, EvFeed 2, EvDetach]
      (page, new_MediaSourcePlayer opus_mime))) = [2::nat]"
  by (simp add: feed_def attach_def detach_def on_sourceopen_def new_MediaSourcePlayer_def
        fake_def)

text \<open>
  C9, amended. \<^verbatim>\<open>detach\<close> raises no error and does not touch the player's own state:
  the Pending Queue after it holds the segments it held before, in the same order.
\<close>

theorem detach_keeps_queue:
  "fst (detach D s) = None
   \<and> snd (snd (detach D s)) = s
   \<and> dataQueue (snd (snd (detach D s))) = dataQueue s"
  by (simp add: detach_def split: option.splits)

section \<open>Handshake\<close>

text \<open>
  C4. With codec \<open>opus\<close>, bitrate 96000, sample rate 48000 and no secret the text is
  \<open>CD:opus\<close>, \<open>BR:96000\<close>, \<open>SR:48000\<close>, an empty line and one more newline. With a
  secret that is neither \<^verbatim>\<open>null\<close> nor \<^verbatim>\<open>undefined\<close> (which takes the default, \<^verbatim>\<open>null\<close>),
  the text is the same one with \<open>sec:\<close> and the secret put between the empty line and
  the last newline.
\<close>

theorem handshake_serialization:
  "handshakeMsg (JStr ''opus'') (JNum 96000) (JNum 48000) JNull
     = ''CD:opus\<newline>BR:96000\<newline>SR:48000\<newline>\<newline>\<newline>''
   \<and> handshakeMsg codec bitrate sampleRate JNull
     = ''CD:'' @ to_string (default_param (JStr ''opus'') codec)
       @ ''\<newline>BR:'' @ to_string (default_param (JNum 96000) bitrate)
       @ ''\<newline>SR:'' @ to_string (default_param (JNum 48000) sampleRate)
       @ ''\<newline>\<newline>'' @ ''\<newline>''
   \<and> (secret \<noteq> JNull \<and> secret \<noteq> JUndefined \<longrightarrow>
        handshakeMsg codec bitrate sampleRate secret
          = ''CD:'' @ to_string (default_param (JStr ''opus'') codec)
            @ ''\<newline>BR:'' @ to_string (default_param (JNum 96000) bitrate)
            @ ''\<newline>SR:'' @ to_string (default_param (JNum 48000) sampleRate)
            @ ''\<newline>\<newline>'' @ ''sec:'' @ to_string secret @ ''\<newline>'')"
  by (simp add: handshakeMsg_def default_param_def not_nullish_def string_of_nat.simps
        digit_char_def)

theorem handshake_serialization_witness:
  "JStr ''hunter2'' \<noteq> JNull \<and> JStr ''hunter2'' \<noteq> JUndefined
   \<and> handshakeMsg (JStr ''opus'') (JNum 96000) (JNum 48000) (JStr ''hunter2'')
       = ''CD:opus\<newline>BR:96000\<newline>SR:48000\<newline>\<newline>sec:hunter2\<newline>''"
  using handshake_serialization [of "JStr ''opus''" "JNum 96000" "JNum 48000" "JStr ''hunter2''"]
  by (simp add: default_param_def string_of_nat.simps digit_char_def)

lemma handshaking_eq:
  "handshaking =
     \<lparr>msp = Some \<lparr>ctor_mime = opus_mime, readyState = Open, sourceopenArmed = False,
                  sourceBuffer = Some \<lparr>f_updating = False, f_buffered = [], f_full = False,
                                       f_sync = False\<rparr>,
                  directFeed = True, dataQueue = [], attachedEl = Some 0, calls = []\<rparr>,
      ws = Some \<lparr>url = ''ws://localhost:8080/websockify?token=audio'',
                 binaryType = ''arraybuffer'', cl_codec = JStr ''opus'',
                 cl_bitrate = JStr ''96000'', cl_samplerate = JStr ''48000'',
                 cl_mime = opus_mime, handshakeListener = True, feedListener = False,
                 suspended = AwaitHandshake\<rparr>,
      audioEl = 0,
      elements = page(0 := (page 0)\<lparr>src := Some ''blob:audio'', playListener := True\<rparr>),
      getSetting = user_settings, connected = True, clickArmed = False,
      effects = [WsSend ''CD:opus\<newline>BR:96000\<newline>SR:48000\<newline>\<newline>\<newline>'']\<rparr>"
  by (simp add: handshaking_def idle_plugin_def startAudio_def ws_on_open_def
        on_msp_sourceopen_def after_attach_def on_sourceopen_def attach_def
        new_MediaSourcePlayer_def user_settings_def mime_of_def opus_mime_def fake_def
        handshakeMsg_def default_param_def not_nullish_def)

text \<open>
  What the handshake's listener does with an ASCII answer, in any state with the
  listener bound. A trimmed answer \<open>READY\<close> resolves the handshake and streaming
  proceeds: no error, nothing torn down, and the next message on the channel is fed
  to the player. A trimmed answer \<open>ERR:\<close> followed by a reason makes the listener
  throw an error whose message is \<open>Proxy error: \<close> followed by that reason.
\<close>

lemma handshake_listener_outcomes:
  assumes "ws S = Some w" and "handshakeListener w" and "ascii data"
  shows "(trim data = ''READY'' \<longrightarrow>
            fst (ws_on_message P data S) = None
            \<and> msp (snd (ws_on_message P data S)) = msp S
            \<and> effects (snd (ws_on_message P data S)) = effects S
            \<and> map_option feedListener (ws (snd (ws_on_message P data S))) = Some True
            \<and> ws_on_message P segment (snd (ws_on_message P data S))
                = feed_listener P segment (snd (ws_on_message P data S)))
       \<and> (trim data = ''ERR:'' @ reason \<longrightarrow>
            fst (ws_on_message P data S) = Some (new_Error (''Proxy error: '' @ reason)))"
  using assms
  by (auto simp: ws_on_message_def handshake_listener_def after_handshake_def Let_def)

lemma handshake_ready_example:
  "fst (plugin_step fake (WsMessage ''READY\<newline>'') handshaking) = None
   \<and> map_option feedListener
        (ws (snd (plugin_step fake (WsMessage ''READY\<newline>'') handshaking))) = Some True
   \<and> map_option suspended
        (ws (snd (plugin_step fake (WsMessage ''READY\<newline>'') handshaking)))
       = Some NotSuspended
   \<and> clickArmed (snd (plugin_step fake (WsMessage ''READY\<newline>'') handshaking))"
  by (simp add: handshaking_eq ws_on_message_def handshake_listener_def after_handshake_def
        trim_def js_whitespace_def)

text \<open>
  C5. On the answer \<open>READY\<close> the handshake resolves and streaming proceeds, as the
  two lemmas above show. On an answer \<open>ERR:\<close> with a reason the handshake is to raise
  an error carrying the reason to \<^verbatim>\<open>startAudio\<close>, whose \<^verbatim>\<open>catch\<close> shows
  \<open>Audio handshake failed\<close> and calls \<^verbatim>\<open>stopAudio\<close>, closing the channel. The code
  does not get there: the \<^verbatim>\<open>throw\<close> is inside the channel's \<^verbatim>\<open>message\<close> listener, and
  the promise has no \<^verbatim>\<open>reject\<close>. On \<open>ERR:bad secret\<close> the error, with the message
  \<open>Proxy error: bad secret\<close>, leaves the listener for the event loop; the \<^verbatim>\<open>open\<close>
  listener stays suspended at its \<^verbatim>\<open>await\<close>, no status is shown, the player stays
  attached, the channel is not closed, and a later message finds no listener.
\<close>

theorem handshake_error_not_raised:
  "fst (plugin_step fake (WsMessage ''ERR:bad secret\<newline>'') handshaking)
     = Some (new_Error ''Proxy error: bad secret'')
   \<and> map_option suspended
        (ws (snd (plugin_step fake (WsMessage ''ERR:bad secret\<newline>'') handshaking)))
       = Some AwaitHandshake
   \<and> msp (snd (plugin_step fake (WsMessage ''ERR:bad secret\<newline>'') handshaking))
       = msp handshaking
   \<and> msp handshaking \<noteq> None
   \<and> effects (snd (plugin_step fake (WsMessage ''ERR:bad secret\<newline>'') handshaking))
       = [WsSend ''CD:opus\<newline>BR:96000\<newline>SR:48000\<newline>\<newline>\<newline>'']
   \<and> plugin_step fake (WsMessage ''abc'')
         (snd (plugin_step fake (WsMessage ''ERR:bad secret\<newline>'') handshaking))
       = (None, snd (plugin_step fake (WsMessage ''ERR:bad secret\<newline>'') handshaking))"
  by (simp add: handshaking_eq ws_on_message_def handshake_listener_def trim_def
        js_whitespace_def new_Error_def)

lemma after_attach_sends:
  "ws S = Some w \<Longrightarrow>
     effects (snd (after_attach S)) =
       effects S @ [WsSend (handshakeMsg (cl_codec w) (cl_bitrate w) (cl_samplerate w) JNull)]"
  by (simp add: after_attach_def handshakeMsg_def default_param_def)

text \<open>
  C6. The settings panel has the \<open>audio_secret\<close> field and \<^verbatim>\<open>handshake\<close> takes a secret,
  but \<^verbatim>\<open>startAudio\<close> calls it with codec, bitrate and sample rate only. With the secret
  \<open>hunter2\<close> configured, the text sent has no secret line; passing the secret would
  have sent one.
\<close>

theorem handshake_omits_secret:
  "getSetting idle_plugin ''audio_secret'' = JStr ''hunter2''
   \<and> effects (plugin_run fake [StartAudio, WsOpen, MspSourceOpen] idle_plugin)
       = [WsSend ''CD:opus\<newline>BR:96000\<newline>SR:48000\<newline>\<newline>\<newline>'']
   \<and> handshakeMsg (JStr ''opus'') (JStr ''96000'') (JStr ''48000'') (JStr ''hunter2'')
       = ''CD:opus\<newline>BR:96000\<newline>SR:48000\<newline>\<newline>sec:hunter2\<newline>''"
  using handshaking_eq
  by (simp add: handshaking_def idle_plugin_def user_settings_def handshakeMsg_def
        default_param_def not_nullish_def)

section \<open>Stopping\<close>

text \<open>
  C10. In every state \<^verbatim>\<open>stopAudio\<close> raises no error and leaves \<^verbatim>\<open>msp\<close> and \<^verbatim>\<open>ws\<close> null;
  a second \<^verbatim>\<open>stopAudio\<close> right after it raises no error and changes nothing: it adds
  no effect, so neither a detach nor a close.
\<close>

theorem stopAudio_idempotent:
  "fst (stopAudio S) = None
   \<and> msp (snd (stopAudio S)) = None
   \<and> ws (snd (stopAudio S)) = None
   \<and> stopAudio (snd (stopAudio S)) = (None, snd (stopAudio S))
   \<and> effects (snd (stopAudio (snd (stopAudio S)))) = effects (snd (stopAudio S))"
  by (auto simp: stopAudio_def detach_def split: option.splits prod.splits)

end
